theory Spec2Isabelle
  imports Main "HOL-Library.Char_ord" "HOL-Library.List_Lexorder"
begin

chapter \<open>gmail-scanner: the scan orchestrator and the link extractor\<close>

text \<open>
  A shallow embedding of \<^verbatim>\<open>cmd/api/main.go\<close> (the scan orchestrator and its
  shared state), \<^verbatim>\<open>internal/database/db.go\<close> (the article store) and
  \<^verbatim>\<open>internal/imap/client.go\<close> (link extraction and URL normalization).
  Go strings are byte sequences; they are modelled as \<^typ>\<open>string\<close>, one
  \<^typ>\<open>char\<close> per byte, so that \<^const>\<open>length\<close> is Go's \<^verbatim>\<open>len\<close>.
  Go's \<^verbatim>\<open>int\<close> counters are modelled as \<^typ>\<open>nat\<close>: they count messages
  and links held in memory and never leave the 64-bit range.
\<close>

section \<open>The article store (\<^verbatim>\<open>internal/database/db.go\<close>)\<close>

record Article =
  art_ID :: nat
  art_URL :: string
  art_Title :: string
  art_Description :: string
  art_Domain :: string
  art_Newsletter :: string
  art_EmailDate :: string
  art_Folder :: string

text \<open>
  The table \<^verbatim>\<open>articles\<close> with its \<^verbatim>\<open>AUTOINCREMENT\<close> key and the unique index
  \<^verbatim>\<open>idx_articles_url\<close>. \<open>execs\<close> counts the calls of \<^verbatim>\<open>Exec\<close>: whether the
  driver reports an error for a call is decided by the environment, a predicate on
  the number of the call. The result of \<^verbatim>\<open>IndexArticle\<close> is its error
  (\<^const>\<open>None\<close> for \<^verbatim>\<open>nil\<close>) and the database after the call.
\<close>

record Database =
  rows :: "Article list"
  next_id :: nat
  execs :: nat

definition has_url :: "Database \<Rightarrow> string \<Rightarrow> bool" where
  "has_url d u = (u \<in> set (map art_URL (rows d)))"

text \<open>
  \<^verbatim>\<open>IndexArticle\<close>: \<^verbatim>\<open>INSERT OR IGNORE\<close>. A row whose url is already in the table
  violates the unique index and is ignored: the statement succeeds and
  \<^verbatim>\<open>IndexArticle\<close> returns \<^verbatim>\<open>nil\<close>, exactly as for a row that was inserted.
\<close>

definition IndexArticle :: "(nat \<Rightarrow> bool) \<Rightarrow> Article \<Rightarrow> Database \<Rightarrow> string option \<times> Database" where
  "IndexArticle exec_fails article d =
     (if exec_fails (execs d) then (Some ''failed to index article'', d\<lparr>execs := Suc (execs d)\<rparr>)
      else if has_url d (art_URL article) then (None, d\<lparr>execs := Suc (execs d)\<rparr>)
      else (None, d\<lparr>rows := rows d @ [article\<lparr>art_ID := next_id d\<rparr>],
                    next_id := Suc (next_id d),
                    execs := Suc (execs d)\<rparr>))"

section \<open>The shared scan state (\<^verbatim>\<open>cmd/api/main.go\<close>)\<close>

record ScanStatus =
  IsRunning :: bool
  LastScanTime :: nat
  LastEmailsScanned :: nat
  LastError :: string

record ScanProgress =
  CurrentFolder :: string
  FoldersTotal :: nat
  FoldersProcessed :: nat
  EmailsTotal :: nat
  EmailsProcessed :: nat
  ArticlesFound :: nat
  PercentComplete :: nat
  Status :: string

record EmailLink =
  URL :: string
  Title :: string
  Description :: string
  Domain :: string
  Position :: nat

text \<open>
  A fetched message. \<open>Date\<close> is the message date as \<^verbatim>\<open>Format(time.RFC3339)\<close>
  prints it.
\<close>

record Message =
  From :: string
  Subject :: string
  Date :: string
  Folder :: string
  Links :: "EmailLink list"

text \<open>
  The package-level variables. \<open>cancelScan\<close> is the channel
  \<^verbatim>\<open>make(chan bool, 1)\<close>: \<^const>\<open>True\<close> when its one slot holds a signal.
\<close>

record world =
  scanStatus :: ScanStatus
  isScanning :: bool
  cancelScan :: bool
  scanProgress :: ScanProgress
  db :: Database

definition init :: world where
  "init = \<lparr>scanStatus = \<lparr>IsRunning = False, LastScanTime = 0, LastEmailsScanned = 0, LastError = ''''\<rparr>,
           isScanning = False,
           cancelScan = False,
           scanProgress = \<lparr>CurrentFolder = '''', FoldersTotal = 0, FoldersProcessed = 0,
             EmailsTotal = 0, EmailsProcessed = 0, ArticlesFound = 0, PercentComplete = 0,
             Status = ''idle''\<rparr>,
           db = \<lparr>rows = [], next_id = 1, execs = 0\<rparr>\<rparr>"

text \<open>
  A session: \<open>GetIMAPClient\<close> is the result of \<^verbatim>\<open>session.GetIMAPClient()\<close>, an
  error text or a connected client, which is modelled by its
  \<^verbatim>\<open>FetchMessages(folder, 0)\<close>.
\<close>

record Session =
  Email :: string
  GetIMAPClient :: "string + (string \<Rightarrow> string + Message list)"

text \<open>
  What a handler writes: the status code and the JSON object, its string fields and
  the \<^verbatim>\<open>folders\<close> array when there is one.
\<close>

record response =
  code :: nat
  body :: "(string \<times> string) list"
  folders_sent :: "string list option"

text \<open>
  A request to \<^verbatim>\<open>POST /api/scan\<close>: the decoded body (\<^const>\<open>None\<close> when decoding
  fails), and the results of \<^verbatim>\<open>auth.GetAuthToken\<close> and \<^verbatim>\<open>auth.GetSession\<close>
  (\<^const>\<open>None\<close> for their errors).
\<close>

record Request =
  decoded :: "string list option"
  token :: "string option"
  session :: "Session option"

subsection \<open>\<^verbatim>\<open>cancelScanHandler\<close>\<close>

definition nenhuma_varredura :: string where
  "nenhuma_varredura = ''nenhuma varredura em andamento''"

text \<open>
  The send \<^verbatim>\<open>select { case cancelScan <- true: ... default: }\<close> fills the slot when
  it is empty and does nothing when it is full.
\<close>

definition post_cancel :: "world \<Rightarrow> world" where
  "post_cancel w = (if cancelScan w then w else w\<lparr>cancelScan := True\<rparr>)"

definition cancelScanHandler :: "world \<Rightarrow> response \<times> world" where
  "cancelScanHandler w =
     (if \<not> isScanning w
      then (\<lparr>code = 400, body = [(''error'', nenhuma_varredura)], folders_sent = None\<rparr>, w)
      else (\<lparr>code = 200, body = [(''status'', ''cancelling''), (''message'', ''cancelamento solicitado'')],
              folders_sent = None\<rparr>,
            post_cancel w))"

subsection \<open>\<^verbatim>\<open>startScan\<close>\<close>

definition varredura_em_andamento :: string where
  "varredura_em_andamento = ''varredura j'' @ [CHR 0xC3, CHR 0xA1] @ '' em andamento''"

text \<open>The first critical section: the test and the set of the flag under \<^verbatim>\<open>scanMutex\<close>.\<close>

definition startScan_lock :: "world \<Rightarrow> world option" where
  "startScan_lock w =
     (if isScanning w then None
      else Some (w\<lparr>isScanning := True, scanStatus := (scanStatus w)\<lparr>IsRunning := True\<rparr>\<rparr>))"

definition release :: "world \<Rightarrow> world" where
  "release w = w\<lparr>isScanning := False, scanStatus := (scanStatus w)\<lparr>IsRunning := False\<rparr>\<rparr>"

definition chosen_folders :: "Request \<Rightarrow> string list" where
  "chosen_folders r =
     (let fs = (case decoded r of None \<Rightarrow> [''INBOX''] | Some fs \<Rightarrow> fs)
      in if length fs = 0 then [''INBOX''] else fs)"

text \<open>
  The rest of the handler, run by the request that has set the flag: it gives the
  flag back when the token or the session is missing, and otherwise drains the
  channel, answers, and spawns \<^verbatim>\<open>performScan\<close> (the third component).
\<close>

definition startScan_rest :: "Request \<Rightarrow> world \<Rightarrow> response \<times> world \<times> (Session \<times> string list) option" where
  "startScan_rest r w =
     (case token r of
        None \<Rightarrow> (\<lparr>code = 401, body = [(''error'', ''n'' @ [CHR 0xC3, CHR 0xA3] @ ''o autorizado'')],
                   folders_sent = None\<rparr>, release w, None)
      | Some t \<Rightarrow>
         (case session r of
            None \<Rightarrow> (\<lparr>code = 401, body = [(''error'', ''sess'' @ [CHR 0xC3, CHR 0xA3] @ ''o inv'' @ [CHR 0xC3, CHR 0xA1] @ ''lida'')],
                       folders_sent = None\<rparr>, release w, None)
          | Some s \<Rightarrow>
              (\<lparr>code = 200, body = [(''status'', ''started''), (''message'', ''varredura iniciada'')],
                folders_sent = Some (chosen_folders r)\<rparr>,
               w\<lparr>cancelScan := False\<rparr>,
               Some (s, chosen_folders r))))"

definition startScan :: "Request \<Rightarrow> world \<Rightarrow> response \<times> world \<times> (Session \<times> string list) option" where
  "startScan r w =
     (case startScan_lock w of
        None \<Rightarrow> (\<lparr>code = 409, body = [(''error'', varredura_em_andamento)], folders_sent = None\<rparr>, w, None)
      | Some w1 \<Rightarrow> startScan_rest r w1)"

subsection \<open>\<^verbatim>\<open>performScan\<close>\<close>

text \<open>
  The environment of one run of the scan task: the clock read by the deferred
  function, the driver errors of the store, and the requests to
  \<^verbatim>\<open>cancelScanHandler\<close> that are served while the task runs. The task passes a
  numbered point before every folder, before every message and once after the last
  folder; \<open>cancel_req env p\<close> says that a cancel request is served just before
  point \<open>p\<close>.
\<close>

record Env =
  now :: nat
  exec_fails :: "nat \<Rightarrow> bool"
  cancel_req :: "nat \<Rightarrow> bool"

record scan =
  wld :: world
  totalArticleCount :: nat
  point :: nat

definition arrive :: "Env \<Rightarrow> scan \<Rightarrow> scan" where
  "arrive env s =
     s\<lparr>wld := (if cancel_req env (point s) then snd (cancelScanHandler (wld s)) else wld s),
       point := Suc (point s)\<rparr>"

definition cancelada :: string where
  "cancelada = ''Varredura cancelada pelo usu'' @ [CHR 0xC3, CHR 0xA1] @ ''rio''"

text \<open>
  The branch \<^verbatim>\<open>case <-cancelScan:\<close> of both \<^verbatim>\<open>select\<close> statements: the signal
  is taken from the channel, the message and the status are written, and
  \<^verbatim>\<open>performScan\<close> returns.
\<close>

definition on_cancel :: "world \<Rightarrow> world" where
  "on_cancel w =
     w\<lparr>cancelScan := False,
       scanStatus := (scanStatus w)\<lparr>LastError := cancelada\<rparr>,
       scanProgress := (scanProgress w)\<lparr>Status := ''cancelled''\<rparr>\<rparr>"

definition article_of :: "Message \<Rightarrow> EmailLink \<Rightarrow> Article" where
  "article_of msg link =
     \<lparr>art_ID = 0, art_URL = URL link, art_Title = Title link,
      art_Description = Description link, art_Domain = Domain link,
      art_Newsletter = From msg, art_EmailDate = Date msg, art_Folder = Folder msg\<rparr>"

text \<open>The loop over \<^verbatim>\<open>msg.Links\<close>, on the database and \<^verbatim>\<open>totalArticleCount\<close>.\<close>

fun save_links :: "Env \<Rightarrow> Message \<Rightarrow> EmailLink list \<Rightarrow> Database \<times> nat \<Rightarrow> Database \<times> nat" where
  "save_links env msg [] (d, n) = (d, n)"
| "save_links env msg (link # ls) (d, n) =
     (case IndexArticle (exec_fails env) (article_of msg link) d of
        (Some err, d') \<Rightarrow> save_links env msg ls (d', n)
      | (None, d') \<Rightarrow> save_links env msg ls (d', Suc n))"

text \<open>
  The loop over the messages of one folder, from index \<open>j\<close>. The first component of
  the result says that \<^verbatim>\<open>performScan\<close> has returned.
\<close>

fun scan_messages :: "Env \<Rightarrow> nat \<Rightarrow> Message list \<Rightarrow> scan \<Rightarrow> bool \<times> scan" where
  "scan_messages env j [] s = (False, s)"
| "scan_messages env j (msg # msgs) s0 =
     (let s = arrive env s0 in
      if j mod 10 = 0 \<and> cancelScan (wld s) then (True, s\<lparr>wld := on_cancel (wld s)\<rparr>)
      else
        (case save_links env msg (Links msg) (db (wld s), totalArticleCount s) of
           (d, n) \<Rightarrow>
             scan_messages env (Suc j) msgs
               (s\<lparr>wld := (wld s)\<lparr>db := d,
                     scanProgress := (scanProgress (wld s))
                       \<lparr>EmailsProcessed := Suc (EmailsProcessed (scanProgress (wld s))),
                        ArticlesFound := n\<rparr>\<rparr>,
                  totalArticleCount := n\<rparr>)))"

text \<open>
  The loop over the folders, from index \<open>i\<close>; \<open>n\<close> is \<^verbatim>\<open>len(folders)\<close>. A folder
  whose fetch fails is skipped (\<^verbatim>\<open>continue\<close>).
\<close>

fun scan_folders :: "Env \<Rightarrow> (string \<Rightarrow> string + Message list) \<Rightarrow> nat \<Rightarrow> nat \<Rightarrow> string list \<Rightarrow> scan
    \<Rightarrow> bool \<times> scan" where
  "scan_folders env fetch n i [] s = (False, s)"
| "scan_folders env fetch n i (folder # rest) s0 =
     (let s = arrive env s0 in
      if cancelScan (wld s) then (True, s\<lparr>wld := on_cancel (wld s)\<rparr>)
      else
        (let s1 = s\<lparr>wld := (wld s)\<lparr>scanProgress := (scanProgress (wld s))
                      \<lparr>CurrentFolder := folder, FoldersProcessed := i,
                       PercentComplete := (i * 100) div n\<rparr>\<rparr>\<rparr>
         in case fetch folder of
              Inl err \<Rightarrow> scan_folders env fetch n (Suc i) rest s1
            | Inr messages \<Rightarrow>
                (case scan_messages env 0 messages
                        (s1\<lparr>wld := (wld s1)\<lparr>scanProgress := (scanProgress (wld s1))
                              \<lparr>EmailsTotal := EmailsTotal (scanProgress (wld s1)) + length messages\<rparr>\<rparr>\<rparr>) of
                   (True, s') \<Rightarrow> (True, s')
                 | (False, s') \<Rightarrow> scan_folders env fetch n (Suc i) rest s')))"

text \<open>
  The body of \<^verbatim>\<open>performScan\<close>: the state when the function returns, before its
  deferred function has run.
\<close>

definition performScan_body :: "Env \<Rightarrow> Session \<Rightarrow> string list \<Rightarrow> world \<Rightarrow> world" where
  "performScan_body env sess folders w0 =
     (let w1 = w0\<lparr>scanProgress := \<lparr>CurrentFolder = [], FoldersTotal = length folders,
                     FoldersProcessed = 0, EmailsTotal = 0, EmailsProcessed = 0,
                     ArticlesFound = 0, PercentComplete = 0, Status = ''connecting''\<rparr>\<rparr>
      in case GetIMAPClient sess of
           Inl err \<Rightarrow>
             w1\<lparr>scanStatus := (scanStatus w1)\<lparr>LastError := ''Falha ao conectar IMAP: '' @ err\<rparr>,
                scanProgress := (scanProgress w1)\<lparr>Status := ''error''\<rparr>\<rparr>
         | Inr fetch \<Rightarrow>
             (case scan_folders env fetch (length folders) 0 folders
                     \<lparr>wld = w1\<lparr>scanProgress := (scanProgress w1)\<lparr>Status := ''scanning''\<rparr>\<rparr>,
                      totalArticleCount = 0, point = 0\<rparr> of
                (True, s) \<Rightarrow> wld s
              | (False, s) \<Rightarrow>
                  (let w = wld (arrive env s)
                   in w\<lparr>scanStatus := (scanStatus w)
                          \<lparr>LastEmailsScanned := EmailsProcessed (scanProgress w), LastError := []\<rparr>,
                        scanProgress := (scanProgress w)
                          \<lparr>FoldersProcessed := length folders, PercentComplete := 100,
                           ArticlesFound := totalArticleCount s, Status := ''completed''\<rparr>\<rparr>)))"

text \<open>The deferred function, which runs on every return of \<^verbatim>\<open>performScan\<close>.\<close>

definition performScan_defer :: "Env \<Rightarrow> world \<Rightarrow> world" where
  "performScan_defer env w =
     w\<lparr>isScanning := False,
       scanStatus := (scanStatus w)\<lparr>IsRunning := False, LastScanTime := now env\<rparr>,
       scanProgress := (scanProgress w)\<lparr>Status := ''completed''\<rparr>\<rparr>"

definition performScan :: "Env \<Rightarrow> Session \<Rightarrow> string list \<Rightarrow> world \<Rightarrow> world" where
  "performScan env sess folders w = performScan_defer env (performScan_body env sess folders w)"

section \<open>Go's \<^verbatim>\<open>strings\<close> and \<^verbatim>\<open>unicode/utf8\<close>, as far as the code uses them\<close>

fun HasPrefix :: "string \<Rightarrow> string \<Rightarrow> bool" where
  "HasPrefix s [] = True"
| "HasPrefix [] (p # ps) = False"
| "HasPrefix (c # s) (p # ps) = (c = p \<and> HasPrefix s ps)"

definition HasSuffix :: "string \<Rightarrow> string \<Rightarrow> bool" where
  "HasSuffix s suffix = HasPrefix (rev s) (rev suffix)"

definition TrimSuffix :: "string \<Rightarrow> string \<Rightarrow> string" where
  "TrimSuffix s suffix = (if HasSuffix s suffix then take (length s - length suffix) s else s)"

definition TrimPrefix :: "string \<Rightarrow> string \<Rightarrow> string" where
  "TrimPrefix s p = (if HasPrefix s p then drop (length p) s else s)"

text \<open>\<^verbatim>\<open>strings.Index\<close>: the position of the first occurrence, \<^const>\<open>None\<close> for \<open>-1\<close>.\<close>

fun Index :: "string \<Rightarrow> string \<Rightarrow> nat option" where
  "Index [] sub = (if sub = [] then Some 0 else None)"
| "Index (c # s) sub =
     (if HasPrefix (c # s) sub then Some 0 else map_option Suc (Index s sub))"

definition Contains :: "string \<Rightarrow> string \<Rightarrow> bool" where
  "Contains s sub = (Index s sub \<noteq> None)"

text \<open>
  \<^verbatim>\<open>strings.Cut(s, sep)\<close> for a separator of one byte: the text before the first
  separator and the text after it; all of \<open>s\<close> and the empty string when there is
  none.
\<close>

definition Cut :: "string \<Rightarrow> char \<Rightarrow> string \<times> string" where
  "Cut s sep = (takeWhile (\<lambda>c. c \<noteq> sep) s, drop 1 (dropWhile (\<lambda>c. c \<noteq> sep) s))"

text \<open>
  The text before and after the last occurrence of a byte
  (\<^verbatim>\<open>strings.LastIndex\<close> and the two slices taken at it); \<^const>\<open>None\<close> when the byte
  does not occur.
\<close>

definition cut_last :: "string \<Rightarrow> char \<Rightarrow> (string \<times> string) option" where
  "cut_last s sep =
     (if sep \<in> set s
      then Some (rev (drop 1 (dropWhile (\<lambda>c. c \<noteq> sep) (rev s))),
                 rev (takeWhile (\<lambda>c. c \<noteq> sep) (rev s)))
      else None)"

definition isLetterASCII :: "char \<Rightarrow> bool" where
  "isLetterASCII c = ((CHR ''a'' \<le> c \<and> c \<le> CHR ''z'') \<or> (CHR ''A'' \<le> c \<and> c \<le> CHR ''Z''))"

definition isDigit :: "char \<Rightarrow> bool" where
  "isDigit c = (CHR ''0'' \<le> c \<and> c \<le> CHR ''9'')"

definition lowerASCII :: "char \<Rightarrow> char" where
  "lowerASCII c = (if CHR ''A'' \<le> c \<and> c \<le> CHR ''Z'' then char_of (of_char c + (32::nat)) else c)"

subsection \<open>UTF-8\<close>

text \<open>
  A rune is its code point. \<^verbatim>\<open>utf8.DecodeRuneInString\<close> on a non-empty string: the
  rune and its width; a byte that starts no valid encoding is the rune
  \<^verbatim>\<open>RuneError\<close> of width 1. \<^verbatim>\<open>for _, r := range s\<close> decodes in the same way.
\<close>

definition RuneError :: nat where
  "RuneError = 0xFFFD"

definition cont :: "char \<Rightarrow> bool" where
  "cont b = (0x80 \<le> (of_char b :: nat) \<and> (of_char b :: nat) \<le> 0xBF)"

text \<open>The range accepted for the second byte, by the first byte (\<^verbatim>\<open>acceptRanges\<close>).\<close>

definition second_ok :: "nat \<Rightarrow> nat \<Rightarrow> bool" where
  "second_ok p0 b1 =
     (if p0 = 0xE0 then 0xA0 \<le> b1 \<and> b1 \<le> 0xBF
      else if p0 = 0xED then 0x80 \<le> b1 \<and> b1 \<le> 0x9F
      else if p0 = 0xF0 then 0x90 \<le> b1 \<and> b1 \<le> 0xBF
      else if p0 = 0xF4 then 0x80 \<le> b1 \<and> b1 \<le> 0x8F
      else 0x80 \<le> b1 \<and> b1 \<le> 0xBF)"

definition DecodeRune :: "char \<Rightarrow> string \<Rightarrow> nat \<times> nat" where
  "DecodeRune c s =
     (let p0 = (of_char c :: nat) in
      if p0 < 0x80 then (p0, 1)
      else if p0 < 0xC2 \<or> 0xF4 < p0 then (RuneError, 1)
      else (case s of
              [] \<Rightarrow> (RuneError, 1)
            | c1 # s1 \<Rightarrow>
                if \<not> second_ok p0 (of_char c1) then (RuneError, 1)
                else if p0 < 0xE0 then ((p0 mod 0x20) * 0x40 + (of_char c1 :: nat) mod 0x40, 2)
                else (case s1 of
                        [] \<Rightarrow> (RuneError, 1)
                      | c2 # s2 \<Rightarrow>
                          if \<not> cont c2 then (RuneError, 1)
                          else if p0 < 0xF0
                          then ((p0 mod 0x10) * 0x1000 + ((of_char c1 :: nat) mod 0x40) * 0x40
                                  + (of_char c2 :: nat) mod 0x40, 3)
                          else (case s2 of
                                  [] \<Rightarrow> (RuneError, 1)
                                | c3 # s3 \<Rightarrow>
                                    if \<not> cont c3 then (RuneError, 1)
                                    else ((p0 mod 0x08) * 0x40000
                                            + ((of_char c1 :: nat) mod 0x40) * 0x1000
                                            + ((of_char c2 :: nat) mod 0x40) * 0x40
                                            + (of_char c3 :: nat) mod 0x40, 4)))))"

text \<open>The runes of a string, in order (\<^verbatim>\<open>range s\<close>).\<close>

function runes :: "string \<Rightarrow> nat list" where
  "runes [] = []"
| "runes (c # s) = fst (DecodeRune c s) # runes (drop (snd (DecodeRune c s) - 1) s)"
  by pat_completeness auto
termination
  by (relation "measure length") auto

text \<open>\<^verbatim>\<open>utf8.AppendRune\<close>: surrogates and values beyond \<^verbatim>\<open>MaxRune\<close> are written as \<^verbatim>\<open>RuneError\<close>.\<close>

definition EncodeRune :: "nat \<Rightarrow> string" where
  "EncodeRune r =
     (if r < 0x80 then [char_of r]
      else if r < 0x800 then [char_of (0xC0 + r div 0x40), char_of (0x80 + r mod 0x40)]
      else if 0x10FFFF < r \<or> (0xD800 \<le> r \<and> r \<le> 0xDFFF) then [CHR 0xEF, CHR 0xBF, CHR 0xBD]
      else if r < 0x10000
      then [char_of (0xE0 + r div 0x1000), char_of (0x80 + (r div 0x40) mod 0x40),
            char_of (0x80 + r mod 0x40)]
      else [char_of (0xF0 + r div 0x40000), char_of (0x80 + (r div 0x1000) mod 0x40),
            char_of (0x80 + (r div 0x40) mod 0x40), char_of (0x80 + r mod 0x40)])"

subsection \<open>The tables of package \<^verbatim>\<open>unicode\<close>\<close>

text \<open>
  The range tables of the Unicode database are parameters: \<open>Upper\<close> is membership
  in \<^verbatim>\<open>unicode.Upper\<close> and \<open>toLower\<close> is the \<^verbatim>\<open>LowerCase\<close> mapping of
  \<^verbatim>\<open>unicode.CaseRanges\<close>. The functions consult them only above Latin-1
  (\<^verbatim>\<open>IsUpper\<close>) and above ASCII (\<^verbatim>\<open>ToLower\<close>), as the library does.
\<close>

record Unicode =
  Upper :: "nat \<Rightarrow> bool"
  toLower :: "nat \<Rightarrow> nat"

definition IsUpper :: "Unicode \<Rightarrow> nat \<Rightarrow> bool" where
  "IsUpper U r =
     (if r \<le> 0xFF
      then (0x41 \<le> r \<and> r \<le> 0x5A) \<or> (0xC0 \<le> r \<and> r \<le> 0xD6) \<or> (0xD8 \<le> r \<and> r \<le> 0xDE)
      else Upper U r)"

definition unicode_ToLower :: "Unicode \<Rightarrow> nat \<Rightarrow> nat" where
  "unicode_ToLower U r =
     (if r \<le> 0x7F then (if 0x41 \<le> r \<and> r \<le> 0x5A then r + 32 else r) else toLower U r)"

text \<open>
  \<^verbatim>\<open>strings.ToLower\<close>: bytewise on an ASCII string, and otherwise
  \<^verbatim>\<open>strings.Map(unicode.ToLower, s)\<close>, which writes the mapped runes in UTF-8.
\<close>

definition ToLower :: "Unicode \<Rightarrow> string \<Rightarrow> string" where
  "ToLower U s =
     (if \<forall>c \<in> set s. (of_char c :: nat) < 0x80 then map lowerASCII s
      else concat (map (\<lambda>r. EncodeRune (unicode_ToLower U r)) (runes s)))"

section \<open>Go's \<^verbatim>\<open>net/url\<close>: \<^verbatim>\<open>Parse\<close>, \<^verbatim>\<open>Query\<close>, \<^verbatim>\<open>Encode\<close> and \<^verbatim>\<open>String\<close>\<close>

datatype encoding =
  encodePath | encodePathSegment | encodeHost | encodeZone | encodeUserPassword
  | encodeQueryComponent | encodeFragment

definition ishex :: "char \<Rightarrow> bool" where
  "ishex c = (isDigit c \<or> (CHR ''a'' \<le> c \<and> c \<le> CHR ''f'') \<or> (CHR ''A'' \<le> c \<and> c \<le> CHR ''F''))"

definition unhex :: "char \<Rightarrow> nat" where
  "unhex c =
     (if isDigit c then of_char c - 48
      else if CHR ''a'' \<le> c \<and> c \<le> CHR ''f'' then of_char c - 97 + 10
      else if CHR ''A'' \<le> c \<and> c \<le> CHR ''F'' then of_char c - 65 + 10
      else 0)"

definition upperhex :: string where
  "upperhex = ''0123456789ABCDEF''"

definition shouldEscape :: "char \<Rightarrow> encoding \<Rightarrow> bool" where
  "shouldEscape c mode =
     (if isLetterASCII c \<or> isDigit c then False
      else if (mode = encodeHost \<or> mode = encodeZone) \<and> c \<in> set (''!$&'' @ [CHR 0x27] @ ''()*+,;=:[]<>'' @ [CHR 0x22])
      then False
      else if c \<in> set ''-_.~'' then False
      else if c \<in> set ''$&+,/:;=?@''
      then (case mode of
              encodePath \<Rightarrow> c = CHR ''?''
            | encodePathSegment \<Rightarrow> c = CHR ''/'' \<or> c = CHR '';'' \<or> c = CHR '','' \<or> c = CHR ''?''
            | encodeUserPassword \<Rightarrow> c = CHR ''@'' \<or> c = CHR ''/'' \<or> c = CHR ''?'' \<or> c = CHR '':''
            | encodeQueryComponent \<Rightarrow> True
            | encodeFragment \<Rightarrow> False
            | _ \<Rightarrow> True)
      else if mode = encodeFragment \<and> c \<in> set ''!()*'' then False
      else True)"

text \<open>
  \<^verbatim>\<open>unescape\<close>: \<^const>\<open>None\<close> for an \<^verbatim>\<open>EscapeError\<close> or an
  \<^verbatim>\<open>InvalidHostError\<close>. The library checks the whole string before it decodes;
  the result is the same.
\<close>

fun unescape :: "string \<Rightarrow> encoding \<Rightarrow> string option" where
  "unescape [] mode = Some []"
| "unescape (c # s) mode =
     (if c = CHR ''%'' then
        (case s of
           h1 # h2 # rest \<Rightarrow>
             if \<not> ishex h1 \<or> \<not> ishex h2 then None
             else if mode = encodeHost \<and> unhex h1 < 8 \<and> [h1, h2] \<noteq> ''25'' then None
             else if mode = encodeZone \<and> [h1, h2] \<noteq> ''25''
                     \<and> char_of (unhex h1 * 16 + unhex h2) \<noteq> CHR '' ''
                     \<and> shouldEscape (char_of (unhex h1 * 16 + unhex h2)) encodeHost then None
             else map_option ((#) (char_of (unhex h1 * 16 + unhex h2))) (unescape rest mode)
         | _ \<Rightarrow> None)
      else if c = CHR ''+'' then
        map_option ((#) (if mode = encodeQueryComponent then CHR '' '' else CHR ''+'')) (unescape s mode)
      else if (mode = encodeHost \<or> mode = encodeZone) \<and> (of_char c :: nat) < 0x80
                \<and> shouldEscape c encodeHost then None
      else map_option ((#) c) (unescape s mode))"

fun escape :: "string \<Rightarrow> encoding \<Rightarrow> string" where
  "escape [] mode = []"
| "escape (c # s) mode =
     (if shouldEscape c mode then
        (if c = CHR '' '' \<and> mode = encodeQueryComponent then CHR ''+'' # escape s mode
         else CHR ''%'' # upperhex ! (of_char c div 16) # upperhex ! (of_char c mod 16) # escape s mode)
      else c # escape s mode)"

definition QueryEscape :: "string \<Rightarrow> string" where
  "QueryEscape s = escape s encodeQueryComponent"

definition QueryUnescape :: "string \<Rightarrow> string option" where
  "QueryUnescape s = unescape s encodeQueryComponent"

record Userinfo =
  username :: string
  password :: string
  passwordSet :: bool

record URL =
  Scheme :: string
  Opaque :: string
  User :: "Userinfo option"
  Host :: string
  Path :: string
  RawPath :: string
  OmitHost :: bool
  ForceQuery :: bool
  RawQuery :: string
  Fragment :: string
  RawFragment :: string

definition new_URL :: URL where
  "new_URL = \<lparr>Scheme = [], Opaque = [], User = None, Host = [], Path = [], RawPath = [],
              OmitHost = False, ForceQuery = False, RawQuery = [], Fragment = [], RawFragment = []\<rparr>"

definition stringContainsCTLByte :: "string \<Rightarrow> bool" where
  "stringContainsCTLByte s = (\<exists>b \<in> set s. b < CHR '' '' \<or> b = CHR 0x7F)"

text \<open>
  \<^verbatim>\<open>getScheme\<close>: the scheme and the rest, \<^const>\<open>None\<close> for the error
  \<^verbatim>\<open>missing protocol scheme\<close>. \<open>pre\<close> is the text already scanned,
  \<^verbatim>\<open>rawURL[:i]\<close>.
\<close>

fun getScheme_from :: "string \<Rightarrow> string \<Rightarrow> string \<Rightarrow> (string \<times> string) option" where
  "getScheme_from rawURL pre [] = Some ([], rawURL)"
| "getScheme_from rawURL pre (c # s) =
     (if isLetterASCII c then getScheme_from rawURL (pre @ [c]) s
      else if isDigit c \<or> c = CHR ''+'' \<or> c = CHR ''-'' \<or> c = CHR ''.''
      then (if pre = [] then Some ([], rawURL) else getScheme_from rawURL (pre @ [c]) s)
      else if c = CHR '':'' then (if pre = [] then None else Some (pre, s))
      else Some ([], rawURL))"

definition getScheme :: "string \<Rightarrow> (string \<times> string) option" where
  "getScheme rawURL = getScheme_from rawURL [] rawURL"

definition validOptionalPort :: "string \<Rightarrow> bool" where
  "validOptionalPort port =
     (case port of [] \<Rightarrow> True | c # ds \<Rightarrow> c = CHR '':'' \<and> (\<forall>b \<in> set ds. isDigit b))"

definition validUserinfo :: "string \<Rightarrow> bool" where
  "validUserinfo s =
     (\<forall>r \<in> set s. isLetterASCII r \<or> isDigit r \<or> r \<in> set (''-._:~!$&'' @ [CHR 0x27] @ ''()*+,;=%@''))"

text \<open>The text from the last colon on (\<^verbatim>\<open>host[i:]\<close> at \<^verbatim>\<open>LastIndex(host, ":")\<close>).\<close>

definition from_last_colon :: "string \<Rightarrow> string" where
  "from_last_colon host = CHR '':'' # rev (takeWhile (\<lambda>c. c \<noteq> CHR '':'') (rev host))"

definition parseHost :: "string \<Rightarrow> string option" where
  "parseHost host =
     (if HasPrefix host ''[''
      then (case cut_last host (CHR '']'') of
              None \<Rightarrow> None
            | Some (inner, colonPort) \<Rightarrow>
                if \<not> validOptionalPort colonPort then None
                else (case Index inner ''%25'' of
                        Some zone \<Rightarrow>
                          (case unescape (take zone inner) encodeHost of
                             None \<Rightarrow> None
                           | Some host1 \<Rightarrow>
                               (case unescape (drop zone inner) encodeZone of
                                  None \<Rightarrow> None
                                | Some host2 \<Rightarrow>
                                    (case unescape (CHR '']'' # colonPort) encodeHost of
                                       None \<Rightarrow> None
                                     | Some host3 \<Rightarrow> Some (host1 @ host2 @ host3))))
                      | None \<Rightarrow> unescape host encodeHost))
      else if CHR '':'' \<in> set host \<and> \<not> validOptionalPort (from_last_colon host) then None
      else unescape host encodeHost)"

definition parseAuthority :: "string \<Rightarrow> (Userinfo option \<times> string) option" where
  "parseAuthority authority =
     (case cut_last authority (CHR ''@'') of
        None \<Rightarrow> map_option (Pair None) (parseHost authority)
      | Some (userinfo, hostpart) \<Rightarrow>
          (case parseHost hostpart of
             None \<Rightarrow> None
           | Some host \<Rightarrow>
               if \<not> validUserinfo userinfo then None
               else if CHR '':'' \<notin> set userinfo
               then (case unescape userinfo encodeUserPassword of
                       None \<Rightarrow> None
                     | Some name \<Rightarrow>
                         Some (Some \<lparr>username = name, password = [], passwordSet = False\<rparr>, host))
               else (case unescape (fst (Cut userinfo (CHR '':''))) encodeUserPassword of
                       None \<Rightarrow> None
                     | Some name \<Rightarrow>
                         (case unescape (snd (Cut userinfo (CHR '':''))) encodeUserPassword of
                            None \<Rightarrow> None
                          | Some pw \<Rightarrow>
                              Some (Some \<lparr>username = name, password = pw, passwordSet = True\<rparr>, host)))))"

definition setPath :: "string \<Rightarrow> URL \<Rightarrow> URL option" where
  "setPath p u =
     (case unescape p encodePath of
        None \<Rightarrow> None
      | Some path \<Rightarrow>
          Some (u\<lparr>Path := path, RawPath := (if p = escape path encodePath then [] else p)\<rparr>))"

definition setFragment :: "string \<Rightarrow> URL \<Rightarrow> URL option" where
  "setFragment f u =
     (case unescape f encodeFragment of
        None \<Rightarrow> None
      | Some frag \<Rightarrow>
          Some (u\<lparr>Fragment := frag, RawFragment := (if f = escape frag encodeFragment then [] else f)\<rparr>))"

definition parse :: "string \<Rightarrow> URL option" where
  "parse rawURL =
     (if stringContainsCTLByte rawURL then None
      else if rawURL = ''*'' then Some (new_URL\<lparr>Path := ''*''\<rparr>)
      else (case getScheme rawURL of
              None \<Rightarrow> None
            | Some (scheme, rest0) \<Rightarrow>
                (let force = (HasSuffix rest0 ''?'' \<and> count_list rest0 (CHR ''?'') = 1);
                     rest = (if force then butlast rest0 else fst (Cut rest0 (CHR ''?'')));
                     url = new_URL\<lparr>Scheme := map lowerASCII scheme, ForceQuery := force,
                             RawQuery := (if force then [] else snd (Cut rest0 (CHR ''?'')))\<rparr>
                 in if \<not> HasPrefix rest ''/'' \<and> Scheme url \<noteq> [] then Some (url\<lparr>Opaque := rest\<rparr>)
                    else if \<not> HasPrefix rest ''/'' \<and> CHR '':'' \<in> set (fst (Cut rest (CHR ''/''))) then None
                    else if (Scheme url \<noteq> [] \<or> \<not> HasPrefix rest ''///'') \<and> HasPrefix rest ''//''
                    then (case parseAuthority (takeWhile (\<lambda>c. c \<noteq> CHR ''/'') (drop 2 rest)) of
                            None \<Rightarrow> None
                          | Some (user, host) \<Rightarrow>
                              setPath (dropWhile (\<lambda>c. c \<noteq> CHR ''/'') (drop 2 rest))
                                (url\<lparr>User := user, Host := host\<rparr>))
                    else setPath rest (url\<lparr>OmitHost := (Scheme url \<noteq> [] \<and> HasPrefix rest ''/'')\<rparr>))))"

text \<open>\<^verbatim>\<open>url.Parse\<close>: the fragment is cut off first, at the first \<^verbatim>\<open>#\<close>.\<close>

definition Parse :: "string \<Rightarrow> URL option" where
  "Parse rawURL =
     (case parse (fst (Cut rawURL (CHR ''#''))) of
        None \<Rightarrow> None
      | Some url \<Rightarrow>
          if snd (Cut rawURL (CHR ''#'')) = [] then Some url
          else setFragment (snd (Cut rawURL (CHR ''#''))) url)"

definition validEncoded :: "string \<Rightarrow> encoding \<Rightarrow> bool" where
  "validEncoded s mode =
     (\<forall>c \<in> set s. c \<in> set (''!$&'' @ [CHR 0x27] @ ''()*+,;=:@[]%'') \<or> \<not> shouldEscape c mode)"

definition EscapedPath :: "URL \<Rightarrow> string" where
  "EscapedPath u =
     (if RawPath u \<noteq> [] \<and> validEncoded (RawPath u) encodePath
         \<and> unescape (RawPath u) encodePath = Some (Path u)
      then RawPath u
      else if Path u = ''*'' then ''*''
      else escape (Path u) encodePath)"

definition EscapedFragment :: "URL \<Rightarrow> string" where
  "EscapedFragment u =
     (if RawFragment u \<noteq> [] \<and> validEncoded (RawFragment u) encodeFragment
         \<and> unescape (RawFragment u) encodeFragment = Some (Fragment u)
      then RawFragment u
      else escape (Fragment u) encodeFragment)"

definition Userinfo_String :: "Userinfo \<Rightarrow> string" where
  "Userinfo_String ui =
     escape (username ui) encodeUserPassword
       @ (if passwordSet ui then '':'' @ escape (password ui) encodeUserPassword else [])"

text \<open>\<^verbatim>\<open>(*URL).String\<close>; \<open>buf\<close> is the text written before the path.\<close>

definition String :: "URL \<Rightarrow> string" where
  "String u =
     (let scheme = (if Scheme u \<noteq> [] then Scheme u @ '':'' else []);
          middle =
            (if Opaque u \<noteq> [] then Opaque u
             else
               (let buf = scheme @
                      (if Scheme u \<noteq> [] \<or> Host u \<noteq> [] \<or> User u \<noteq> None
                       then (if OmitHost u \<and> Host u = [] \<and> User u = None then []
                             else (if Host u \<noteq> [] \<or> Path u \<noteq> [] \<or> User u \<noteq> None then ''//'' else [])
                                  @ (case User u of None \<Rightarrow> [] | Some ui \<Rightarrow> Userinfo_String ui @ ''@'')
                                  @ (if Host u \<noteq> [] then escape (Host u) encodeHost else []))
                       else []);
                    path = EscapedPath u
                in drop (length scheme) buf
                   @ (if path \<noteq> [] \<and> hd path \<noteq> CHR ''/'' \<and> Host u \<noteq> [] then ''/'' else [])
                   @ (if buf = [] \<and> CHR '':'' \<in> set (fst (Cut path (CHR ''/''))) then ''./'' else [])
                   @ path))
      in scheme @ middle
         @ (if ForceQuery u \<or> RawQuery u \<noteq> [] then ''?'' @ RawQuery u else [])
         @ (if Fragment u \<noteq> [] then ''#'' @ EscapedFragment u else []))"

subsection \<open>\<^verbatim>\<open>url.Values\<close>\<close>

text \<open>
  \<^verbatim>\<open>Values\<close> is \<^verbatim>\<open>map[string][]string\<close>: an association list with one entry
  for each key. \<^verbatim>\<open>Encode\<close> sorts the keys, so the order of the entries is not
  observable.
\<close>

type_synonym Values = "(string \<times> string list) list"

fun Add :: "Values \<Rightarrow> string \<Rightarrow> string \<Rightarrow> Values" where
  "Add [] key val = [(key, [val])]"
| "Add ((k, vs) # m) key val = (if k = key then (k, vs @ [val]) # m else (k, vs) # Add m key val)"

definition Del :: "string \<Rightarrow> Values \<Rightarrow> Values" where
  "Del key v = filter (\<lambda>kv. fst kv \<noteq> key) v"

definition Get_all :: "Values \<Rightarrow> string \<Rightarrow> string list" where
  "Get_all v key = (case map_of v key of None \<Rightarrow> [] | Some vs \<Rightarrow> vs)"

lemma Cut_shorter: "query \<noteq> [] \<Longrightarrow> length (snd (Cut query sep)) < length query"
proof -
  assume "query \<noteq> []"
  then have "0 < length query" by simp
  moreover have "length (dropWhile (\<lambda>c. c \<noteq> sep) query) \<le> length query"
    by (rule length_dropWhile_le)
  ultimately have "length (dropWhile (\<lambda>c. c \<noteq> sep) query) - 1 < length query"
    by arith
  then show ?thesis by (simp add: Cut_def)
qed

function parseQuery :: "Values \<Rightarrow> string \<Rightarrow> Values" where
  "parseQuery m query =
     (if query = [] then m
      else
        (let key = fst (Cut query (CHR ''&'')); rest = snd (Cut query (CHR ''&''))
         in if CHR '';'' \<in> set key then parseQuery m rest
            else if key = [] then parseQuery m rest
            else (case QueryUnescape (fst (Cut key (CHR ''=''))) of
                    None \<Rightarrow> parseQuery m rest
                  | Some k \<Rightarrow>
                      (case QueryUnescape (snd (Cut key (CHR ''=''))) of
                         None \<Rightarrow> parseQuery m rest
                       | Some val \<Rightarrow> parseQuery (Add m k val) rest))))"
  by pat_completeness auto
termination
  by (relation "measure (\<lambda>(m, query). length query)") (auto simp: Cut_shorter)

definition Query :: "URL \<Rightarrow> Values" where
  "Query u = parseQuery [] (RawQuery u)"

fun join :: "string list \<Rightarrow> string \<Rightarrow> string" where
  "join [] sep = []"
| "join [x] sep = x"
| "join (x # y # xs) sep = x @ sep @ join (y # xs) sep"

definition Encode :: "Values \<Rightarrow> string" where
  "Encode v =
     (if length v = 0 then []
      else join (concat (map (\<lambda>k. map (\<lambda>val. QueryEscape k @ ''='' @ QueryEscape val) (Get_all v k))
                           (sort (map fst v)))) ''&'')"

text \<open>\<^verbatim>\<open>(*URL).Hostname\<close>, that is \<^verbatim>\<open>stripPort(u.Host)\<close>.\<close>

definition Hostname :: "URL \<Rightarrow> string" where
  "Hostname u =
     (if CHR '':'' \<notin> set (Host u) then Host u
      else if CHR '']'' \<in> set (Host u) then TrimPrefix (takeWhile (\<lambda>c. c \<noteq> CHR '']'') (Host u)) ''[''
      else takeWhile (\<lambda>c. c \<noteq> CHR '':'') (Host u))"

section \<open>Link extraction (\<^verbatim>\<open>internal/imap/client.go\<close>)\<close>

definition trackingParams :: "string list" where
  "trackingParams =
     [''utm_source'', ''utm_medium'', ''utm_campaign'', ''utm_term'', ''utm_content'',
      ''ref'', ''source'', ''mc_cid'', ''mc_eid'',
      ''fbclid'', ''gclid'', ''dclid'',
      ''_ga'', ''_gl'',
      ''oly_enc_id'', ''oly_anon_id'',
      ''vero_id'', ''vero_conv'',
      ''spm'', ''share_token'',
      ''si'', ''feature'']"

text \<open>The copy of the URL as \<^verbatim>\<open>normalizeURL\<close> has changed it, before it is printed.\<close>

definition normalized :: "URL \<Rightarrow> URL" where
  "normalized u =
     (let query = fold Del trackingParams (Query u)
      in u\<lparr>RawQuery := (if length query = 0 then [] else Encode query),
           Fragment := [],
           Path := TrimSuffix (Path u) ''/''\<rparr>)"

definition normalizeURL :: "URL \<Rightarrow> string" where
  "normalizeURL u = String (normalized u)"

subsection \<open>\<^verbatim>\<open>isValidTitle\<close> and \<^verbatim>\<open>isIgnorableLink\<close>\<close>

text \<open>
  \<^verbatim>\<open>len(title)\<close> is the number of bytes. The loop over the runes returns at the
  first one, so only the first rune is looked at.
\<close>

definition isValidTitle :: "Unicode \<Rightarrow> string \<Rightarrow> bool" where
  "isValidTitle U title =
     (if length title < 20 then False
      else (case title of [] \<Rightarrow> False | c # s \<Rightarrow> IsUpper U (fst (DecodeRune c s))))"

definition ignoredPatterns :: "string list" where
  "ignoredPatterns =
     [''unsubscribe'',
      ''preferences'',
      ''mailto:'',
      ''tel:'',
      ''facebook.com/sharer'',
      ''twitter.com/intent'',
      ''twitter.com/share'',
      ''linkedin.com/sharing'',
      ''linkedin.com/shareArticle'',
      ''pinterest.com/pin'',
      ''reddit.com/submit'',
      ''wa.me'',
      ''whatsapp.com'',
      ''t.me'',
      ''#'']"

definition isIgnorableLink :: "Unicode \<Rightarrow> string \<Rightarrow> bool" where
  "isIgnorableLink U href =
     (let lowerHref = ToLower U href
      in if HasPrefix lowerHref ''#'' then True
         else if length href < 10 then True
         else (\<exists>pattern \<in> set ignoredPatterns. Contains lowerHref pattern))"

subsection \<open>\<^verbatim>\<open>extractLinks\<close>\<close>

text \<open>
  An element of the selection \<^verbatim>\<open>doc.Find("a[href]")\<close>, with what the document
  gives for it: the value of its \<^verbatim>\<open>href\<close>, the title that
  \<^verbatim>\<open>extractTitleFromLink\<close> resolves for it, and the trimmed text of the next
  sibling of its parent when that is a \<^verbatim>\<open>p\<close> element.
\<close>

record Anchor =
  href :: string
  resolved_title :: string
  next_p :: "string option"

record extraction =
  links :: "EmailLink list"
  position :: nat
  seenURLs :: "string set"

definition truncated :: "nat \<Rightarrow> string \<Rightarrow> string" where
  "truncated n s = (if length s > n then take n s @ ''...'' else s)"

text \<open>The function passed to \<^verbatim>\<open>Each\<close>: one anchor, on the variables it captures.\<close>

definition visit :: "Unicode \<Rightarrow> Anchor \<Rightarrow> extraction \<Rightarrow> extraction" where
  "visit U a st =
     (if href a = [] then st
      else if isIgnorableLink U (href a) then st
      else (case Parse (href a) of
              None \<Rightarrow> st
            | Some parsedURL \<Rightarrow>
                if Scheme parsedURL \<noteq> ''http'' \<and> Scheme parsedURL \<noteq> ''https'' then st
                else if normalizeURL parsedURL \<in> seenURLs st then st
                else if \<not> isValidTitle U (resolved_title a)
                then st\<lparr>seenURLs := insert (normalizeURL parsedURL) (seenURLs st)\<rparr>
                else st\<lparr>seenURLs := insert (normalizeURL parsedURL) (seenURLs st),
                        links := links st @
                          [\<lparr>URL = normalizeURL parsedURL,
                            Title = truncated 200 (resolved_title a),
                            Description = (case next_p a of None \<Rightarrow> [] | Some t \<Rightarrow> truncated 300 t),
                            Domain = Hostname parsedURL,
                            Position = position st\<rparr>],
                        position := Suc (position st)\<rparr>))"

definition extractLinks :: "Unicode \<Rightarrow> Anchor list \<Rightarrow> EmailLink list" where
  "extractLinks U anchors = links (fold (visit U) anchors \<lparr>links = [], position = 0, seenURLs = {}\<rparr>)"

section \<open>The handlers and the scan task, running together\<close>

text \<open>
  The state of the server: the package-level variables, the number of requests to
  \<^verbatim>\<open>startScan\<close> that have passed the first critical section and have not yet
  given the flag back or spawned the task, and the number of running scan tasks.
\<close>

record sys =
  state :: world
  claimed :: nat
  tasks :: nat

text \<open>
  The steps of the server. A request to \<^verbatim>\<open>startScan\<close> takes two steps, since it
  leaves the lock between them. The running scan task writes the progress, the
  error text, the store and the channel, and ends with \<^verbatim>\<open>performScan\<close>'s result
  for the whole run.
\<close>

inductive reachable :: "sys \<Rightarrow> bool" where
  r_init: "reachable \<lparr>state = init, claimed = 0, tasks = 0\<rparr>"
| r_lock: "reachable s \<Longrightarrow> startScan_lock (state s) = Some w \<Longrightarrow>
     reachable (s\<lparr>state := w, claimed := Suc (claimed s)\<rparr>)"
| r_rest: "reachable s \<Longrightarrow> 0 < claimed s \<Longrightarrow> startScan_rest r (state s) = (resp, w, spawned) \<Longrightarrow>
     reachable (s\<lparr>state := w, claimed := claimed s - 1,
                  tasks := tasks s + (case spawned of None \<Rightarrow> 0 | Some g \<Rightarrow> 1)\<rparr>)"
| r_cancel: "reachable s \<Longrightarrow> reachable (s\<lparr>state := snd (cancelScanHandler (state s))\<rparr>)"
| r_write: "reachable s \<Longrightarrow> 0 < tasks s \<Longrightarrow>
     reachable (s\<lparr>state := (state s)\<lparr>scanProgress := p, cancelScan := c, db := d,
                    scanStatus := (scanStatus (state s))\<lparr>LastError := e, LastEmailsScanned := k\<rparr>\<rparr>\<rparr>)"
| r_exit: "reachable s \<Longrightarrow> 0 < tasks s \<Longrightarrow>
     reachable (s\<lparr>state := performScan env sess folders (state s), tasks := tasks s - 1\<rparr>)"

definition single_flight :: "sys \<Rightarrow> bool" where
  "single_flight s =
     (claimed s + tasks s \<le> 1 \<and>
      isScanning (state s) = (claimed s + tasks s = 1) \<and>
      IsRunning (scanStatus (state s)) = isScanning (state s))"

section \<open>Notions used in the statements\<close>


text \<open>The number of calls of \<^verbatim>\<open>Exec\<close>, from call \<open>a\<close> up to call \<open>b\<close>, that return no error.\<close>

definition nil_calls :: "(nat \<Rightarrow> bool) \<Rightarrow> nat \<Rightarrow> nat \<Rightarrow> nat" where
  "nil_calls fails a b = length (filter (\<lambda>k. \<not> fails k) [a..<b])"


text \<open>
  An anchor that reaches the dedup stage: it has a non-empty \<^verbatim>\<open>href\<close> that the
  filter keeps and that parses as an http or https URL. Its canonical URL is the
  normalized one.
\<close>

definition candidate :: "Unicode \<Rightarrow> Anchor \<Rightarrow> bool" where
  "candidate U a =
     (href a \<noteq> [] \<and> \<not> isIgnorableLink U (href a) \<and>
      (case Parse (href a) of
         None \<Rightarrow> False
       | Some parsedURL \<Rightarrow> Scheme parsedURL = ''http'' \<or> Scheme parsedURL = ''https''))"

definition canonical :: "Anchor \<Rightarrow> string" where
  "canonical a = (case Parse (href a) of None \<Rightarrow> [] | Some parsedURL \<Rightarrow> normalizeURL parsedURL)"

text \<open>The anchors whose canonical URL has not been seen before them, \<open>seen\<close> being seen already.\<close>

fun first_seen :: "string set \<Rightarrow> Anchor list \<Rightarrow> Anchor list" where
  "first_seen seen [] = []"
| "first_seen seen (a # as) =
     (if canonical a \<in> seen then first_seen seen as
      else a # first_seen (insert (canonical a) seen) as)"

text \<open>The link that \<^verbatim>\<open>extractLinks\<close> appends for an anchor, at position \<open>n\<close>.\<close>

definition emitted_link :: "Anchor \<Rightarrow> nat \<Rightarrow> EmailLink" where
  "emitted_link a n =
     \<lparr>URL = canonical a,
      Title = truncated 200 (resolved_title a),
      Description = (case next_p a of None \<Rightarrow> [] | Some t \<Rightarrow> truncated 300 t),
      Domain = (case Parse (href a) of None \<Rightarrow> [] | Some parsedURL \<Rightarrow> Hostname parsedURL),
      Position = n\<rparr>"

section \<open>Inputs of the examples\<close>

definition claimed_state :: sys where
  "claimed_state =
     \<lparr>state = init\<lparr>isScanning := True, scanStatus := (scanStatus init)\<lparr>IsRunning := True\<rparr>\<rparr>,
      claimed = 1, tasks = 0\<rparr>"

definition plain_message :: Message where
  "plain_message = \<lparr>From = ''news@x.com'', Subject = ''Weekly'', Date = ''2024-01-01T00:00:00Z'',
                    Folder = ''INBOX'', Links = []\<rparr>"

text \<open>A mailbox whose every folder holds 25 messages.\<close>

definition inbox25 :: Session where
  "inbox25 = \<lparr>Email = ''me@x.com'', GetIMAPClient = Inr (\<lambda>folder. Inr (replicate 25 plain_message))\<rparr>"

text \<open>
  One cancel request, served just before point 13: point 0 is the first folder, so
  the task has processed the messages 0 to 11 of that folder and is about to start
  message 12.
\<close>

definition cancel_at_13 :: Env where
  "cancel_at_13 = \<lparr>now = 1, exec_fails = (\<lambda>k. False), cancel_req = (\<lambda>p. p = 13)\<rparr>"




definition no_tables :: Unicode where
  "no_tables = \<lparr>Upper = (\<lambda>r. False), toLower = (\<lambda>r. r)\<rparr>"

text \<open>A title of 19 characters and 20 bytes: its first letter is U+00C9, two bytes in UTF-8.\<close>

definition economie :: string where
  "economie = [CHR 0xC3, CHR 0x89] @ ''conomie du partage''"

definition weak_title_anchor :: Anchor where
  "weak_title_anchor = \<lparr>href = ''https://x.com/a/?utm_source=nl'', resolved_title = ''click'', next_p = None\<rparr>"

definition good_title_anchor :: Anchor where
  "good_title_anchor = \<lparr>href = ''https://x.com/a'', resolved_title = ''Twenty characters ok'', next_p = None\<rparr>"


chapter \<open>Properties\<close>

section \<open>The article store and the counter of the scan\<close>

lemma nil_calls_same [simp]: "nil_calls f a a = 0"
  by (simp add: nil_calls_def)
















section \<open>Starting, cancelling and ending a scan\<close>

lemma performScan_flags:
  "isScanning (performScan env sess folders w) = False"
  "IsRunning (scanStatus (performScan env sess folders w)) = False"
  by (simp_all add: performScan_def performScan_defer_def)

lemma reachable_single_flight: "reachable s \<Longrightarrow> single_flight s"
proof (induction rule: reachable.induct)
  case r_init
  show ?case by (simp add: single_flight_def init_def)
next
  case (r_lock s w)
  then show ?case
    by (auto simp: single_flight_def startScan_lock_def split: if_splits)
next
  case (r_rest s r resp w spawned)
  then show ?case
    by (auto simp: single_flight_def startScan_rest_def release_def split: option.splits)
next
  case (r_cancel s)
  then show ?case
    by (auto simp: single_flight_def cancelScanHandler_def post_cancel_def)
next
  case (r_write s p c d e k)
  then show ?case by (auto simp: single_flight_def)
next
  case (r_exit s env sess folders)
  then show ?case by (auto simp: single_flight_def performScan_flags)
qed

lemma reachable_claimed_state: "reachable claimed_state"
proof -
  have "startScan_lock (state \<lparr>state = init, claimed = 0, tasks = 0\<rparr>)
          = Some (init\<lparr>isScanning := True, scanStatus := (scanStatus init)\<lparr>IsRunning := True\<rparr>\<rparr>)"
    by (simp add: startScan_lock_def init_def)
  from r_lock [OF r_init this] show ?thesis by (simp add: claimed_state_def)
qed

text \<open>
  C3. In every state that the handlers and the scan task can reach, at most one
  request or task holds the flag, and a request to \<^verbatim>\<open>startScan\<close> that finds
  \<open>is_running\<close> set is answered with the conflict ``already running'', leaves every
  variable as it was, the progress included, and spawns nothing.
\<close>

theorem start_while_running:
  "reachable s \<Longrightarrow>
     claimed s + tasks s \<le> 1 \<and>
     (IsRunning (scanStatus (state s)) \<longrightarrow>
        startScan r (state s) =
          (\<lparr>code = 409, body = [(''error'', varredura_em_andamento)], folders_sent = None\<rparr>,
           state s, None))"
  using reachable_single_flight [of s]
  by (auto simp: single_flight_def startScan_def startScan_lock_def)

theorem start_while_running_witness:
  "reachable claimed_state \<and> IsRunning (scanStatus (state claimed_state)) \<and>
   claimed claimed_state + tasks claimed_state \<le> 1 \<and>
   startScan \<lparr>decoded = Some [''INBOX''], token = Some ''t'', session = None\<rparr> (state claimed_state) =
     (\<lparr>code = 409, body = [(''error'', varredura_em_andamento)], folders_sent = None\<rparr>,
      state claimed_state, None)"
  using start_while_running [OF reachable_claimed_state,
      of "\<lparr>decoded = Some [''INBOX''], token = Some ''t'', session = None\<rparr>"]
    reachable_claimed_state
  by (simp add: claimed_state_def init_def)

text \<open>
  C9, as the code has it. A cancel request that finds no scan running changes
  nothing and is answered with the error ``nenhuma varredura em andamento'' and
  status 400. One that finds a scan running is answered with ``cancelling'' and
  leaves one signal in the channel; when a signal is pending already it changes
  nothing, so a second request never queues a second signal.
\<close>

theorem cancel_posts_one_signal:
  "(\<not> isScanning w \<longrightarrow>
      cancelScanHandler w =
        (\<lparr>code = 400, body = [(''error'', nenhuma_varredura)], folders_sent = None\<rparr>, w)) \<and>
   (isScanning w \<longrightarrow>
      fst (cancelScanHandler w) =
        \<lparr>code = 200, body = [(''status'', ''cancelling''), (''message'', ''cancelamento solicitado'')],
         folders_sent = None\<rparr> \<and>
      snd (cancelScanHandler w) = w\<lparr>cancelScan := True\<rparr> \<and>
      snd (cancelScanHandler (snd (cancelScanHandler w))) = snd (cancelScanHandler w)) \<and>
   (isScanning w \<and> cancelScan w \<longrightarrow> snd (cancelScanHandler w) = w)"
  by (simp add: cancelScanHandler_def post_cancel_def)

theorem cancel_posts_one_signal_witness:
  "\<not> isScanning init \<and> cancelScanHandler init =
        (\<lparr>code = 400, body = [(''error'', nenhuma_varredura)], folders_sent = None\<rparr>, init) \<and>
   isScanning (state claimed_state) \<and>
   snd (cancelScanHandler (state claimed_state)) = (state claimed_state)\<lparr>cancelScan := True\<rparr> \<and>
   isScanning ((state claimed_state)\<lparr>cancelScan := True\<rparr>) \<and>
   cancelScan ((state claimed_state)\<lparr>cancelScan := True\<rparr>) \<and>
   snd (cancelScanHandler ((state claimed_state)\<lparr>cancelScan := True\<rparr>)) =
     (state claimed_state)\<lparr>cancelScan := True\<rparr>"
  using cancel_posts_one_signal [of init] cancel_posts_one_signal [of "state claimed_state"]
    cancel_posts_one_signal [of "(state claimed_state)\<lparr>cancelScan := True\<rparr>"]
  by (simp add: init_def claimed_state_def)

text \<open>
  C9, as the claim has it, fails: with no scan running the request is answered
  with an error.
\<close>

theorem cancel_when_idle_is_an_error:
  "\<not> isScanning init \<and>
   fst (cancelScanHandler init) =
     \<lparr>code = 400, body = [(''error'', ''nenhuma varredura em andamento'')], folders_sent = None\<rparr>"
  by (simp add: cancelScanHandler_def init_def nenhuma_varredura_def)

text \<open>
  C2. When the connection fails, the error text is in \<open>last_error\<close>, both flags are
  cleared and the store is untouched, as the claim says; but the deferred function
  of \<^verbatim>\<open>performScan\<close> then overwrites the status \<open>error\<close>, and the status that can
  be read after the task has ended is \<open>completed\<close>.
\<close>

theorem connection_failure_ends_completed:
  "Status (scanProgress (performScan_body env (sess\<lparr>GetIMAPClient := Inl err\<rparr>) folders w)) = ''error'' \<and>
   performScan env (sess\<lparr>GetIMAPClient := Inl err\<rparr>) folders w =
     w\<lparr>isScanning := False,
       scanStatus := (scanStatus w)\<lparr>IsRunning := False, LastScanTime := now env,
                                     LastError := ''Falha ao conectar IMAP: '' @ err\<rparr>,
       scanProgress := \<lparr>CurrentFolder = [], FoldersTotal = length folders,
                         FoldersProcessed = 0, EmailsTotal = 0, EmailsProcessed = 0,
                         ArticlesFound = 0, PercentComplete = 0, Status = ''completed''\<rparr>\<rparr>"
  by (simp add: performScan_def performScan_body_def performScan_defer_def)

text \<open>
  C1. A cancel request is served while the task is in a folder of 25 messages, with
  12 of them processed. The task stops at message 20, within 10 messages, with the
  cancellation text in \<open>last_error\<close> and the status \<open>cancelled\<close>; but the deferred
  function of \<^verbatim>\<open>performScan\<close> then overwrites the status, and the status that
  can be read after the task has ended is \<open>completed\<close>.
\<close>

theorem cancel_in_folder_ends_completed:
  "EmailsProcessed (scanProgress (performScan cancel_at_13 inbox25 [''INBOX'', ''Later''] (state claimed_state))) = 20 \<and>
   EmailsTotal (scanProgress (performScan cancel_at_13 inbox25 [''INBOX'', ''Later''] (state claimed_state))) = 25 \<and>
   CurrentFolder (scanProgress (performScan cancel_at_13 inbox25 [''INBOX'', ''Later''] (state claimed_state))) = ''INBOX'' \<and>
   LastError (scanStatus (performScan cancel_at_13 inbox25 [''INBOX'', ''Later''] (state claimed_state))) = cancelada \<and>
   Status (scanProgress (performScan_body cancel_at_13 inbox25 [''INBOX'', ''Later''] (state claimed_state))) = ''cancelled'' \<and>
   Status (scanProgress (performScan cancel_at_13 inbox25 [''INBOX'', ''Later''] (state claimed_state))) = ''completed''"
  by code_simp

section \<open>The filter stage, the title gate and normalization\<close>




lemma hash_low: "(of_char (CHR ''#'') :: nat) = 35"
  by simp









text \<open>
  C5. The two reference examples of URL normalization: the tracking parameter is
  removed and \<open>id=5\<close> kept, the fragment is removed; a query left empty is
  dropped and one trailing slash stripped.
\<close>

theorem normalize_examples:
  "map_option normalizeURL (Parse ''https://x.com/a?utm_source=nl&id=5#frag'') = Some ''https://x.com/a?id=5'' \<and>
   map_option normalizeURL (Parse ''https://x.com/a/?utm_source=nl'') = Some ''https://x.com/a''"
  by code_simp

text \<open>
  C6. The length test of \<^verbatim>\<open>isValidTitle\<close> counts bytes: a title of 19
  characters whose first letter takes two bytes is accepted, whatever the Unicode
  tables are.
\<close>

theorem title_of_19_characters_accepted:
  "length (runes economie) = 19 \<and> length economie = 20 \<and> isValidTitle U economie"
proof -
  have "length (runes economie) = 19" by code_simp
  moreover have "isValidTitle U economie"
    by (simp add: isValidTitle_def economie_def DecodeRune_def second_ok_def IsUpper_def)
  ultimately show ?thesis by (simp add: economie_def)
qed

text \<open>
  C10, as the claim has it, fails: only one trailing slash is stripped, so the
  normalized form of a path that ends in two slashes is normalized further.
\<close>

theorem normalize_twice_differs:
  "map_option normalizeURL (Parse ''https://x.com/a//'') = Some ''https://x.com/a/'' \<and>
   map_option normalizeURL (Parse ''https://x.com/a/'') = Some ''https://x.com/a''"
  by code_simp

section \<open>The dedup stage\<close>

lemma visit_cases:
  "visit U a st =
     (if \<not> candidate U a \<or> canonical a \<in> seenURLs st then st
      else if \<not> isValidTitle U (resolved_title a)
      then st\<lparr>seenURLs := insert (canonical a) (seenURLs st)\<rparr>
      else st\<lparr>seenURLs := insert (canonical a) (seenURLs st),
              links := links st @ [emitted_link a (position st)],
              position := Suc (position st)\<rparr>)"
  by (auto simp: visit_def candidate_def canonical_def emitted_link_def split: option.splits)

lemma fold_visit_urls:
  "map URL (links (fold (visit U) as st)) =
     map URL (links st) @
     map canonical (filter (\<lambda>a. isValidTitle U (resolved_title a))
                      (first_seen (seenURLs st) (filter (candidate U) as)))"
proof (induction as arbitrary: st)
  case Nil
  show ?case by simp
next
  case (Cons a as)
  show ?case
    by (simp add: Cons.IH visit_cases [of U a st] emitted_link_def)
qed

lemma fold_visit_positions:
  "position st = length (links st) \<Longrightarrow> map Position (links st) = [0..<length (links st)] \<Longrightarrow>
     map Position (links (fold (visit U) as st)) = [0..<length (links (fold (visit U) as st))]"
proof (induction as arbitrary: st)
  case Nil
  then show ?case by simp
next
  case (Cons a as)
  have "position (visit U a st) = length (links (visit U a st))"
    "map Position (links (visit U a st)) = [0..<length (links (visit U a st))]"
    using Cons.prems by (simp_all add: visit_cases [of U a st] emitted_link_def)
  from Cons.IH [OF this] show ?case by simp
qed

lemma first_seen_fresh:
  "distinct (map canonical (first_seen seen as)) \<and> canonical ` set (first_seen seen as) \<inter> seen = {}"
proof (induction as arbitrary: seen)
  case Nil
  show ?case by simp
next
  case (Cons a as)
  from Cons.IH [of seen] Cons.IH [of "insert (canonical a) seen"] show ?case by auto
qed

text \<open>
  C8, as the code has it. The canonical URL is marked as seen before the title is
  validated. The links emitted are, in document order, the anchors that reach the
  dedup stage with a canonical URL not seen before in the call, emitted or not,
  and that then pass the title gate; no URL is emitted twice, and the positions
  count the emitted links from 0.
\<close>

theorem dedup_is_on_seen_urls:
  "map URL (extractLinks U anchors) =
     map canonical (filter (\<lambda>a. isValidTitle U (resolved_title a))
                      (first_seen {} (filter (candidate U) anchors))) \<and>
   distinct (map URL (extractLinks U anchors)) \<and>
   map Position (extractLinks U anchors) = [0..<length (extractLinks U anchors)]"
proof -
  have u: "map URL (extractLinks U anchors) =
     map canonical (filter (\<lambda>a. isValidTitle U (resolved_title a))
                      (first_seen {} (filter (candidate U) anchors)))"
    using fold_visit_urls [of U anchors "\<lparr>links = [], position = 0, seenURLs = {}\<rparr>"]
    by (simp add: extractLinks_def)
  have "distinct (map canonical (first_seen {} (filter (candidate U) anchors)))"
    using first_seen_fresh [of "{}" "filter (candidate U) anchors"] by simp
  then have d: "distinct (map URL (extractLinks U anchors))"
    unfolding u by (rule distinct_map_filter)
  have p: "map Position (extractLinks U anchors) = [0..<length (extractLinks U anchors)]"
    using fold_visit_positions [of "\<lparr>links = [], position = 0, seenURLs = {}\<rparr>" U anchors]
    by (simp add: extractLinks_def)
  from u d p show ?thesis by simp
qed

text \<open>
  C8, as the claim has it, fails: an anchor with a valid title is emitted when it
  is alone, and blocked when an earlier anchor with the same canonical URL failed
  the title gate.
\<close>

theorem seen_but_rejected_blocks_later:
  "canonical weak_title_anchor = canonical good_title_anchor \<and>
   \<not> isValidTitle no_tables (resolved_title weak_title_anchor) \<and>
   map URL (extractLinks no_tables [good_title_anchor]) = [''https://x.com/a''] \<and>
   extractLinks no_tables [weak_title_anchor] = [] \<and>
   extractLinks no_tables [weak_title_anchor, good_title_anchor] = []"
  by code_simp

end
